theory Spec2Isabelle
  imports Complex_Main "HOL-Library.Sublist"
begin

section \<open>JavaScript values used by the sheet library\<close>

text \<open>
  Strings are lists of code units; the model covers the code units U+0000 to U+00FF.
  A JavaScript number of a project entry is either \<open>NaN\<close> or an integer: every number
  the sheet library itself produces comes out of \<open>parseInt\<close>, and the hours of a request
  body are taken to be whole. Values are exact, so the model agrees with IEEE doubles on
  the safe integers (below \<open>2^53\<close> in magnitude); \<open>-0\<close> is identified with \<open>0\<close>, from
  which \<open>toString\<close> cannot tell it apart. The completion rate of the statistics is the one
  number that is not whole; its doubles are modelled further down.
\<close>

datatype number = NaN | Num int

text \<open>A thrown \<open>Error\<close> object, identified by its message.\<close>

datatype err = Error string

text \<open>\<open>x || d\<close> on an optional string: \<open>undefined\<close> and \<open>""\<close> are falsy.\<close>

definition or_default :: "string option \<Rightarrow> string \<Rightarrow> string" where
  "or_default x d = (case x of None \<Rightarrow> d | Some s \<Rightarrow> if s = [] then d else s)"

text \<open>\<open>!x\<close> on an optional string.\<close>

definition falsy :: "string option \<Rightarrow> bool" where
  "falsy x = (case x of None \<Rightarrow> True | Some s \<Rightarrow> s = [])"

text \<open>\<open>row[i]\<close>: reading past the end of an array gives \<open>undefined\<close>.\<close>

definition cell :: "string list \<Rightarrow> nat \<Rightarrow> string option" where
  "cell row i = (if i < length row then Some (row ! i) else None)"

text \<open>White space and line terminators, as \<open>parseInt\<close> and \<open>trim\<close> strip them.\<close>

definition isWhiteSpace :: "char \<Rightarrow> bool" where
  "isWhiteSpace c = ((of_char c :: nat) \<in> {9, 10, 11, 12, 13, 32, 160})"

definition decDigit :: "char \<Rightarrow> nat option" where
  "decDigit c = (let n = (of_char c :: nat) in
     if 48 \<le> n \<and> n \<le> 57 then Some (n - 48) else None)"

definition hexDigit :: "char \<Rightarrow> nat option" where
  "hexDigit c = (let n = (of_char c :: nat) in
     if 48 \<le> n \<and> n \<le> 57 then Some (n - 48)
     else if 97 \<le> n \<and> n \<le> 102 then Some (n - 87)
     else if 65 \<le> n \<and> n \<le> 70 then Some (n - 55)
     else None)"

text \<open>The value of the longest prefix of digits, most significant digit first.\<close>

fun digitsValue :: "(char \<Rightarrow> nat option) \<Rightarrow> nat \<Rightarrow> nat \<Rightarrow> string \<Rightarrow> nat" where
  "digitsValue dig R acc [] = acc"
| "digitsValue dig R acc (c # cs) =
     (case dig c of None \<Rightarrow> acc | Some v \<Rightarrow> digitsValue dig R (acc * R + v) cs)"

definition startsWithDigit :: "(char \<Rightarrow> nat option) \<Rightarrow> string \<Rightarrow> bool" where
  "startsWithDigit dig s = (case s of [] \<Rightarrow> False | c # _ \<Rightarrow> dig c \<noteq> None)"

text \<open>
  \<open>parseInt(s)\<close> with no radix argument (ECMAScript \<open>parseInt\<close>): leading white space
  is skipped, a sign is read, a \<open>0x\<close>/\<open>0X\<close> prefix selects radix 16, and the longest
  prefix of digits is the value; with no digit at all the result is \<open>NaN\<close>.
\<close>

definition parseInt :: "string \<Rightarrow> number" where
  "parseInt s =
     (let S = dropWhile isWhiteSpace s;
          neg = (take 1 S = ''-'');
          S1 = (if take 1 S = ''-'' \<or> take 1 S = ''+'' then drop 1 S else S);
          hex = (take 2 S1 = ''0x'' \<or> take 2 S1 = ''0X'');
          S2 = (if hex then drop 2 S1 else S1);
          dig = (if hex then hexDigit else decDigit);
          R = (if hex then 16 else 10)
      in if \<not> startsWithDigit dig S2 then NaN
         else Num ((if neg then - 1 else 1) * int (digitsValue dig R 0 S2)))"

definition digitChar :: "nat \<Rightarrow> char" where
  "digitChar k = ''0123456789'' ! k"

fun showNat :: "nat \<Rightarrow> string" where
  "showNat n = (if n < 10 then [digitChar n] else showNat (n div 10) @ [digitChar (n mod 10)])"

declare showNat.simps [simp del]

text \<open>\<open>Number.prototype.toString()\<close> on the numbers of the model.\<close>

fun toString :: "number \<Rightarrow> string" where
  "toString NaN = ''NaN''"
| "toString (Num n) = (if n < 0 then ''-'' @ showNat (nat (- n)) else showNat (nat n))"


section \<open>Project entries\<close>

text \<open>
  \<open>interface ProjectEntry\<close>. The status and priority are kept as strings: the row
  mapping casts whatever the cell holds. The optional fields are options.
\<close>

record ProjectEntry =
  email :: string
  name :: string
  projectTitle :: string
  projectDescription :: string
  status :: string
  deadline :: string
  lastUpdated :: string
  priority :: string
  department :: "string option"
  estimatedHours :: "number option"
  actualHours :: "number option"
  notes' :: "string option"

text \<open>The callback of \<open>rows.map\<close> in \<open>getAllProjects\<close>.\<close>

definition rowToRecord :: "string list \<Rightarrow> ProjectEntry" where
  "rowToRecord row =
     \<lparr> email = or_default (cell row 0) '''',
       name = or_default (cell row 1) '''',
       projectTitle = or_default (cell row 2) '''',
       projectDescription = or_default (cell row 3) '''',
       status = or_default (cell row 4) ''Not Started'',
       deadline = or_default (cell row 5) '''',
       lastUpdated = or_default (cell row 6) '''',
       priority = or_default (cell row 7) ''Medium'',
       department = Some (or_default (cell row 8) ''''),
       estimatedHours =
         (if falsy (cell row 9) then None else map_option parseInt (cell row 9)),
       actualHours =
         (if falsy (cell row 10) then None else map_option parseInt (cell row 10)),
       notes' = Some (or_default (cell row 11) '''') \<rparr>"

text \<open>The predicate of \<open>rows.filter\<close> in \<open>getAllProjects\<close>: \<open>row.length > 0 && row[0]\<close>.\<close>

definition nonEmptyRow :: "string list \<Rightarrow> bool" where
  "nonEmptyRow row = (length row > 0 \<and> \<not> falsy (cell row 0))"

text \<open>
  \<open>Partial<ProjectEntry>\<close>, the argument of \<open>addOrUpdateProject\<close> and the body of
  \<open>POST /api/projects/add\<close>: every field may be absent.
\<close>

record PartialProjectEntry =
  email_opt :: "string option"
  name_opt :: "string option"
  projectTitle_opt :: "string option"
  projectDescription_opt :: "string option"
  status_opt :: "string option"
  deadline_opt :: "string option"
  lastUpdated_opt :: "string option"
  priority_opt :: "string option"
  department_opt :: "string option"
  estimatedHours_opt :: "number option"
  actualHours_opt :: "number option"
  notes_opt :: "string option"


section \<open>The clock\<close>

text \<open>
  \<open>new Date()\<close> in UTC, and \<open>Date.prototype.toISOString()\<close>: four digits for the
  years 0 to 9999, a sign and six digits beyond.
\<close>

record Date =
  year :: nat
  month :: nat
  day :: nat
  hours :: nat
  minutes :: nat
  seconds :: nat
  milliseconds :: nat

definition padStart :: "nat \<Rightarrow> string \<Rightarrow> string" where
  "padStart k s = replicate (k - length s) (CHR ''0'') @ s"

definition toISOString :: "Date \<Rightarrow> string" where
  "toISOString d =
     (if year d \<le> 9999 then padStart 4 (showNat (year d))
      else ''+'' @ padStart 6 (showNat (year d)))
     @ ''-'' @ padStart 2 (showNat (month d))
     @ ''-'' @ padStart 2 (showNat (day d))
     @ ''T'' @ padStart 2 (showNat (hours d))
     @ '':'' @ padStart 2 (showNat (minutes d))
     @ '':'' @ padStart 2 (showNat (seconds d))
     @ ''.'' @ padStart 3 (showNat (milliseconds d)) @ ''Z''"

text \<open>\<open>s.split('T')[0]\<close>: the part of \<open>s\<close> before the first \<open>T\<close>.\<close>

definition splitT0 :: "string \<Rightarrow> string" where
  "splitT0 s = takeWhile (\<lambda>c. c \<noteq> CHR ''T'') s"

section \<open>The remote spreadsheet\<close>

text \<open>
  The Sheets API is an external service. The model keeps what the library can observe
  of it: the worksheets the metadata request lists, the cells of the first worksheet
  from row 2 down (\<open>grid\<close>, one list of cells per row, row 1 being the header), and
  the requests issued so far. Any request may be rejected: \<open>faults w k\<close> is the error
  with which the \<open>k\<close>-th request fails, if it does. A rejected request changes nothing.
\<close>

record SheetProperties =
  title :: "string option"
  sheetId :: "nat option"

datatype request =
    SpreadsheetsGet
  | ValuesGet string
  | ValuesUpdate string nat "string list"
  | ValuesAppend string "string list"
  | DeleteRows nat nat nat

fun isMutation :: "request \<Rightarrow> bool" where
  "isMutation SpreadsheetsGet = False"
| "isMutation (ValuesGet _) = False"
| "isMutation (ValuesUpdate _ _ _) = True"
| "isMutation (ValuesAppend _ _) = True"
| "isMutation (DeleteRows _ _ _) = True"

record world =
  auth_failure :: "string option"
  sheets :: "SheetProperties list"
  grid :: "string list list"
  faults :: "nat \<Rightarrow> err option"
  requests :: "request list"

definition remote :: "world \<Rightarrow> request \<Rightarrow> err option \<times> world" where
  "remote w rq = (faults w (length (requests w)), w\<lparr>requests := requests w @ [rq]\<rparr>)"

text \<open>\<open>sheets.spreadsheets.get\<close>: the metadata, of which the library reads \<open>data.sheets\<close>.\<close>

definition spreadsheets_get :: "world \<Rightarrow> (err + SheetProperties list) \<times> world" where
  "spreadsheets_get w =
     (case remote w SpreadsheetsGet of
        (Some e, w') \<Rightarrow> (Inl e, w')
      | (None, w') \<Rightarrow> (Inr (sheets w'), w'))"

text \<open>
  \<open>sheets.spreadsheets.values.get\<close> on the range \<open>Name!A2:Z1000\<close>: the rows 2 to 1000,
  the columns A to Z.
\<close>

definition values_get :: "world \<Rightarrow> string \<Rightarrow> (err + string list list) \<times> world" where
  "values_get w sheetName =
     (case remote w (ValuesGet sheetName) of
        (Some e, w') \<Rightarrow> (Inl e, w')
      | (None, w') \<Rightarrow> (Inr (map (take 26) (take 999 (grid w'))), w'))"

text \<open>
  \<open>sheets.spreadsheets.values.update\<close> on the range \<open>Name!An:Zn\<close> with one row of
  values: the cells the values cover are overwritten, the cells to their right are
  kept. Row \<open>n\<close> of the sheet is index \<open>n - 2\<close> of the grid; a row below the data is
  created.
\<close>

definition writeRow :: "string list list \<Rightarrow> nat \<Rightarrow> string list \<Rightarrow> string list list" where
  "writeRow g i row =
     (if i < length g then g[i := row @ drop (length row) (g ! i)]
      else g @ replicate (i - length g) [] @ [row])"

definition values_update ::
  "world \<Rightarrow> string \<Rightarrow> nat \<Rightarrow> string list \<Rightarrow> (err + unit) \<times> world" where
  "values_update w sheetName rowNumber row =
     (case remote w (ValuesUpdate sheetName rowNumber row) of
        (Some e, w') \<Rightarrow> (Inl e, w')
      | (None, w') \<Rightarrow> (Inr (), w'\<lparr>grid := writeRow (grid w') (rowNumber - 2) row\<rparr>))"

text \<open>
  \<open>sheets.spreadsheets.values.append\<close> on the range \<open>Name!A:Z\<close> with
  \<open>INSERT_ROWS\<close>: the row is added below the last row of the data.
\<close>

definition values_append :: "world \<Rightarrow> string \<Rightarrow> string list \<Rightarrow> (err + unit) \<times> world" where
  "values_append w sheetName row =
     (case remote w (ValuesAppend sheetName row) of
        (Some e, w') \<Rightarrow> (Inl e, w')
      | (None, w') \<Rightarrow> (Inr (), w'\<lparr>grid := grid w' @ [row]\<rparr>))"

text \<open>
  \<open>sheets.spreadsheets.batchUpdate\<close> with one \<open>deleteDimension\<close> request on the rows
  \<open>startIndex\<close> (included) to \<open>endIndex\<close> (excluded), counted from 0 at the header.
\<close>

definition batchUpdate_deleteRows ::
  "world \<Rightarrow> nat \<Rightarrow> nat \<Rightarrow> nat \<Rightarrow> (err + unit) \<times> world" where
  "batchUpdate_deleteRows w sid startIndex endIndex =
     (case remote w (DeleteRows sid startIndex endIndex) of
        (Some e, w') \<Rightarrow> (Inl e, w')
      | (None, w') \<Rightarrow>
          (Inr (), w'\<lparr>grid := take (startIndex - 1) (grid w') @ drop (endIndex - 1) (grid w')\<rparr>))"

section \<open>The sheet library\<close>

text \<open>
  \<open>createSheetsClient\<close> and \<open>getGoogleSheetsClient\<close>: each wraps a failure in a new
  message. Building the client issues no request.
\<close>

definition createSheetsClient :: "world \<Rightarrow> err + unit" where
  "createSheetsClient w =
     (case auth_failure w of
        Some m \<Rightarrow> Inl (Error (''Google Sheets client creation failed: '' @ m))
      | None \<Rightarrow> Inr ())"

definition getGoogleSheetsClient :: "world \<Rightarrow> err + unit" where
  "getGoogleSheetsClient w =
     (case createSheetsClient w of
        Inl (Error m) \<Rightarrow> Inl (Error (''Google Sheets API initialization failed: '' @ m))
      | Inr c \<Rightarrow> Inr c)"

text \<open>The body of the \<open>try\<close> block of \<open>getAllProjects\<close>.\<close>

definition getAllProjects_try :: "world \<Rightarrow> (err + ProjectEntry list) \<times> world" where
  "getAllProjects_try w =
     (case getGoogleSheetsClient w of
        Inl e \<Rightarrow> (Inl e, w)
      | Inr _ \<Rightarrow>
         (case spreadsheets_get w of
            (Inl e, w1) \<Rightarrow> (Inl e, w1)
          | (Inr shs, w1) \<Rightarrow>
             (case shs of
                [] \<Rightarrow> (Inl (Error ''No sheets found in the spreadsheet''), w1)
              | sheet # _ \<Rightarrow>
                 (let sheetName = or_default (title sheet) ''Sheet1'' in
                  case values_get w1 sheetName of
                    (Inl e, w2) \<Rightarrow> (Inl e, w2)
                  | (Inr rows, w2) \<Rightarrow>
                      (Inr (map rowToRecord (filter nonEmptyRow rows)), w2)))))"

text \<open>\<open>getAllProjects\<close>: the \<open>catch\<close> block returns the empty array.\<close>

definition getAllProjects :: "world \<Rightarrow> ProjectEntry list \<times> world" where
  "getAllProjects w =
     (case getAllProjects_try w of
        (Inl e, w') \<Rightarrow> ([], w')
      | (Inr projects, w') \<Rightarrow> (projects, w'))"

text \<open>
  \<open>getUserProjects\<close>. Its \<open>catch\<close> block rethrows, but nothing in its \<open>try\<close> block
  throws: \<open>getAllProjects\<close> has swallowed every error.
\<close>

definition getUserProjects :: "world \<Rightarrow> string \<Rightarrow> ProjectEntry list \<times> world" where
  "getUserProjects w userEmail =
     (case getAllProjects w of
        (allProjects, w') \<Rightarrow>
          (filter (\<lambda>project. email project = userEmail) allProjects, w'))"

text \<open>\<open>Array.prototype.findIndex\<close>; \<open>None\<close> stands for \<open>-1\<close>.\<close>

fun findIndex :: "('a \<Rightarrow> bool) \<Rightarrow> 'a list \<Rightarrow> nat option" where
  "findIndex P [] = None"
| "findIndex P (x # xs) = (if P x then Some 0 else map_option Suc (findIndex P xs))"

text \<open>
  The array \<open>rowData\<close> of \<open>addOrUpdateProject\<close>, built once the email and the title
  are known to be non-empty strings.
\<close>

definition numberCell :: "number option \<Rightarrow> string" where
  "numberCell x = or_default (map_option toString x) []"

definition rowData :: "Date \<Rightarrow> string \<Rightarrow> string \<Rightarrow> PartialProjectEntry \<Rightarrow> string list" where
  "rowData now e t projectData =
     [ e,
       or_default (name_opt projectData) [],
       t,
       or_default (projectDescription_opt projectData) [],
       or_default (status_opt projectData) ''Not Started'',
       or_default (deadline_opt projectData) [],
       splitT0 (toISOString now),
       or_default (priority_opt projectData) ''Medium'',
       or_default (department_opt projectData) [],
       numberCell (estimatedHours_opt projectData),
       numberCell (actualHours_opt projectData),
       or_default (notes_opt projectData) [] ]"

text \<open>\<open>addOrUpdateProject\<close>. Its \<open>catch\<close> block logs and rethrows.\<close>

definition addOrUpdateProject ::
  "Date \<Rightarrow> world \<Rightarrow> PartialProjectEntry \<Rightarrow> (err + unit) \<times> world" where
  "addOrUpdateProject now w projectData =
     (case getGoogleSheetsClient w of
        Inl e \<Rightarrow> (Inl e, w)
      | Inr _ \<Rightarrow>
         (case spreadsheets_get w of
            (Inl e, w1) \<Rightarrow> (Inl e, w1)
          | (Inr shs, w1) \<Rightarrow>
             (case shs of
                [] \<Rightarrow> (Inl (Error ''No sheets found in the spreadsheet''), w1)
              | sheet # _ \<Rightarrow>
                 (let sheetName = or_default (title sheet) ''Sheet1'' in
                  case (email_opt projectData, projectTitle_opt projectData) of
                    (Some e, Some t) \<Rightarrow>
                      if e = [] \<or> t = []
                      then (Inl (Error ''Email and project title are required''), w1)
                      else
                        (case getAllProjects w1 of
                           (allProjects, w2) \<Rightarrow>
                             (case findIndex (\<lambda>project. email project = e \<and>
                                                projectTitle project = t) allProjects of
                                Some existingProjectIndex \<Rightarrow>
                                  values_update w2 sheetName (existingProjectIndex + 2)
                                    (rowData now e t projectData)
                              | None \<Rightarrow>
                                  values_append w2 sheetName (rowData now e t projectData)))
                  | _ \<Rightarrow> (Inl (Error ''Email and project title are required''), w1)))))"

text \<open>\<open>deleteProject\<close>. Its \<open>catch\<close> block logs and rethrows.\<close>

definition deleteProject :: "world \<Rightarrow> string \<Rightarrow> string \<Rightarrow> (err + unit) \<times> world" where
  "deleteProject w userEmail title' =
     (case getGoogleSheetsClient w of
        Inl e \<Rightarrow> (Inl e, w)
      | Inr _ \<Rightarrow>
         (case spreadsheets_get w of
            (Inl e, w1) \<Rightarrow> (Inl e, w1)
          | (Inr shs, w1) \<Rightarrow>
             (case shs of
                [] \<Rightarrow> (Inl (Error ''No sheets found in the spreadsheet''), w1)
              | sheet # _ \<Rightarrow>
                 (let sheetId' = (case sheetId sheet of None \<Rightarrow> 0 | Some i \<Rightarrow> i) in
                  case getAllProjects w1 of
                    (allProjects, w2) \<Rightarrow>
                      (case findIndex (\<lambda>project. email project = userEmail \<and>
                                         projectTitle project = title') allProjects of
                         None \<Rightarrow> (Inl (Error ''Project not found''), w2)
                       | Some projectIndex \<Rightarrow>
                           (let rowNumber = projectIndex + 2 in
                            batchUpdate_deleteRows w2 sheetId' (rowNumber - 1) rowNumber))))))"

text \<open>
  From the argument of \<open>addOrUpdateProject\<close> to the row it writes: the check of the email
  and the title, which throws, and then the array \<open>rowData\<close>. No row is built for an
  argument that fails the check.
\<close>

definition recordToRow :: "Date \<Rightarrow> PartialProjectEntry \<Rightarrow> err + string list" where
  "recordToRow now projectData =
     (case (email_opt projectData, projectTitle_opt projectData) of
        (Some e, Some t) \<Rightarrow>
          if e = [] \<or> t = []
          then Inl (Error ''Email and project title are required'')
          else Inr (rowData now e t projectData)
      | _ \<Rightarrow> Inl (Error ''Email and project title are required''))"

section \<open>Numbers of \<open>getProjectStats\<close>: IEEE doubles\<close>

text \<open>
  The completion rate is computed in double precision. A finite double is a rational
  number, and an operation on doubles returns the double nearest to the exact result,
  ties going to the even significand. The exponent range is not modelled: the rates
  lie between \<open>1/10\<close> and \<open>100\<close>, far from overflow and from the subnormal numbers.
\<close>

fun bitlen :: "nat \<Rightarrow> nat" where
  "bitlen n = (if n = 0 then 0 else Suc (bitlen (n div 2)))"

declare bitlen.simps [simp del]

text \<open>\<open>ilog2 x\<close> is the integer \<open>k\<close> with \<open>2^k \<le> x < 2^(k+1)\<close>, for a positive \<open>x\<close>.\<close>

definition ilog2 :: "rat \<Rightarrow> int" where
  "ilog2 x =
     (if 1 \<le> x then int (bitlen (nat \<lfloor>x\<rfloor>)) - 1
      else (let k = - int (bitlen (nat \<lfloor>1 / x\<rfloor>))
            in if x < 2 powi (k + 1) then k else k + 1))"

definition roundHalfEven :: "rat \<Rightarrow> int" where
  "roundHalfEven x =
     (let f = \<lfloor>x\<rfloor>; d = x - of_int f
      in if d < 1 / 2 then f else if 1 / 2 < d then f + 1
         else if even f then f else f + 1)"

text \<open>The double nearest to \<open>x\<close>: a significand of 53 bits.\<close>

definition nearestDouble :: "rat \<Rightarrow> rat" where
  "nearestDouble x =
     (if x = 0 then 0
      else (let e = ilog2 \<bar>x\<bar> - 52
            in sgn x * of_int (roundHalfEven (\<bar>x\<bar> / 2 powi e)) * 2 powi e))"

section \<open>Statistics\<close>

record ProjectStats =
  totalProjects :: nat
  completedProjects :: nat
  inProgressProjects :: nat
  notStartedProjects :: nat
  onHoldProjects :: nat
  overdueProjects :: nat
  departmentStats :: "string \<rightharpoonup> nat"
  priorityStats :: "string \<rightharpoonup> nat"
  completionRate :: rat

text \<open>\<open>acc[k] = (acc[k] || 0) + 1\<close>.\<close>

definition countKey :: "string \<Rightarrow> (string \<rightharpoonup> nat) \<Rightarrow> (string \<rightharpoonup> nat)" where
  "countKey k acc = acc(k \<mapsto> (case acc k of None \<Rightarrow> 0 | Some c \<Rightarrow> c) + 1)"

text \<open>
  \<open>getProjectStats\<close>. \<open>timeValue\<close> is the time value of \<open>new Date(s)\<close>, \<open>None\<close> for
  an invalid date, and \<open>today\<close> the time value of \<open>new Date()\<close>. Nothing in its \<open>try\<close>
  block throws.
\<close>

definition getProjectStats ::
  "(string \<Rightarrow> int option) \<Rightarrow> int \<Rightarrow> world \<Rightarrow> ProjectStats \<times> world" where
  "getProjectStats timeValue today w =
     (case getAllProjects w of
        (projects, w') \<Rightarrow>
          (let total = length projects;
               completed = length (filter (\<lambda>p. status p = ''Completed'') projects)
           in \<lparr> totalProjects = total,
                completedProjects = completed,
                inProgressProjects = length (filter (\<lambda>p. status p = ''In Progress'') projects),
                notStartedProjects = length (filter (\<lambda>p. status p = ''Not Started'') projects),
                onHoldProjects = length (filter (\<lambda>p. status p = ''On Hold'') projects),
                overdueProjects = length (filter (\<lambda>p.
                    if status p = ''Completed'' \<or> deadline p = [] then False
                    else (case timeValue (deadline p) of
                            None \<Rightarrow> False
                          | Some t \<Rightarrow> t < today)) projects),
                departmentStats = foldl (\<lambda>acc project.
                    countKey (or_default (department project) ''Unassigned'') acc)
                    Map.empty projects,
                priorityStats = foldl (\<lambda>acc project. countKey (priority project) acc)
                    Map.empty projects,
                completionRate =
                  (if total > 0
                   then nearestDouble (nearestDouble (of_nat completed / of_nat total) * 100)
                   else 0) \<rparr>, w'))"

section \<open>The route \<open>POST /api/projects/add\<close>\<close>










section \<open>The store behind the library\<close>

text \<open>
  The records of the sheet: its rows with an email, as entries. The identity of a
  record is its email with its project title.
\<close>

definition records :: "string list list \<Rightarrow> ProjectEntry list" where
  "records g = map rowToRecord (filter nonEmptyRow g)"

definition recordKey :: "ProjectEntry \<Rightarrow> string \<times> string" where
  "recordKey p = (email p, projectTitle p)"

definition onePerKey :: "string list list \<Rightarrow> bool" where
  "onePerKey g = distinct (map recordKey (records g))"

section \<open>Sample inputs\<close>

definition sampleSheet :: SheetProperties where
  "sampleSheet = \<lparr> title = Some ''Projects'', sheetId = Some 0 \<rparr>"

text \<open>A reachable spreadsheet with one worksheet, the given rows and the given faults.\<close>

definition sampleWorld :: "string list list \<Rightarrow> (nat \<Rightarrow> err option) \<Rightarrow> world" where
  "sampleWorld g f =
     \<lparr> auth_failure = None, sheets = [sampleSheet], grid = g, faults = f, requests = [] \<rparr>"

definition noFaults :: "nat \<Rightarrow> err option" where
  "noFaults k = None"

text \<open>The \<open>k\<close>-th request is rejected.\<close>

definition faultAt :: "nat \<Rightarrow> nat \<Rightarrow> err option" where
  "faultAt k i = (if i = k then Some (Error ''503 Service Unavailable'') else None)"

definition sampleDate :: Date where
  "sampleDate = \<lparr> year = 2026, month = 11, day = 2, hours = 9, minutes = 5,
     seconds = 0, milliseconds = 7 \<rparr>"

text \<open>A request body with an email and a title and nothing else.\<close>

definition sampleBody :: "string option \<Rightarrow> string option \<Rightarrow> PartialProjectEntry" where
  "sampleBody e t =
     \<lparr> email_opt = e, name_opt = None, projectTitle_opt = t,
       projectDescription_opt = None, status_opt = None, deadline_opt = None,
       lastUpdated_opt = None, priority_opt = None, department_opt = None,
       estimatedHours_opt = None, actualHours_opt = None, notes_opt = None \<rparr>"


text \<open>Twenty projects of one employee, eleven of them completed.\<close>

definition sampleRows :: "string \<Rightarrow> nat list \<Rightarrow> string list list" where
  "sampleRows st ks = map (\<lambda>k. [''ann@hines.com'', ''Ann'', showNat k, '''', st]) ks"

definition sampleStatsRows :: "string list list" where
  "sampleStatsRows = sampleRows ''Completed'' [0..<11] @ sampleRows ''In Progress'' [11..<20]"

definition sampleStatsWorld :: world where
  "sampleStatsWorld = sampleWorld sampleStatsRows noFaults"

section \<open>Properties\<close>

subsection \<open>Digits\<close>

lemma digit_chars:
  assumes "c \<in> set ''0123456789''"
  shows "decDigit c \<noteq> None" "\<not> isWhiteSpace c" "c \<noteq> CHR ''T''" "c \<noteq> CHR ''-''"
    "c \<noteq> CHR ''+''" "c \<noteq> CHR ''x''" "c \<noteq> CHR ''X''"
  using assms by (auto simp: decDigit_def isWhiteSpace_def)

lemma digitChar_in: "k < 10 \<Longrightarrow> digitChar k \<in> set ''0123456789''"
  unfolding digitChar_def by (rule nth_mem) simp

lemma decDigit_digitChar: "k < 10 \<Longrightarrow> decDigit (digitChar k) = Some k"
proof -
  assume "k < 10"
  then have "k \<in> {0,1,2,3,4,5,6,7,8,9}" by auto
  then show ?thesis by (auto simp: decDigit_def digitChar_def)
qed

lemma showNat_digits: "set (showNat n) \<subseteq> set ''0123456789''"
proof (induction n rule: showNat.induct)
  case (1 n)
  show ?case
  proof (cases "n < 10")
    case True
    then show ?thesis using digitChar_in[of n] by (subst showNat.simps) simp
  next
    case False
    then show ?thesis using 1 digitChar_in[of "n mod 10"] by (subst showNat.simps) simp
  qed
qed

lemma showNat_nonempty: "showNat n \<noteq> []"
  by (subst showNat.simps) simp

lemma digitsValue_snoc:
  "\<forall>c\<in>set xs. dig c \<noteq> None \<Longrightarrow> dig c = Some v \<Longrightarrow>
   digitsValue dig R acc (xs @ [c]) = digitsValue dig R acc xs * R + v"
  by (induction xs arbitrary: acc) auto

lemma digitsValue_showNat: "digitsValue decDigit 10 0 (showNat n) = n"
proof (induction n rule: showNat.induct)
  case (1 n)
  show ?case
  proof (cases "n < 10")
    case True
    then show ?thesis by (subst showNat.simps) (simp add: decDigit_digitChar)
  next
    case False
    have d: "\<forall>c\<in>set (showNat (n div 10)). decDigit c \<noteq> None"
      using showNat_digits digit_chars(1) by blast
    have "digitsValue decDigit 10 0 (showNat n) =
          digitsValue decDigit 10 0 (showNat (n div 10) @ [digitChar (n mod 10)])"
      using False by (subst showNat.simps) simp
    also have "\<dots> = digitsValue decDigit 10 0 (showNat (n div 10)) * 10 + n mod 10"
      by (rule digitsValue_snoc[OF d]) (simp add: decDigit_digitChar)
    also have "\<dots> = n" using 1 False by simp
    finally show ?thesis .
  qed
qed

lemma digit_string:
  assumes "s \<noteq> []" "set s \<subseteq> set ''0123456789''"
  shows "dropWhile isWhiteSpace s = s" "take 1 s \<noteq> ''-''" "take 1 s \<noteq> ''+''"
    "take 2 s \<noteq> ''0x''" "take 2 s \<noteq> ''0X''" "startsWithDigit decDigit s"
proof -
  from assms obtain c cs where s: "s = c # cs" by (cases s) auto
  with assms have c: "c \<in> set ''0123456789''" by auto
  show "dropWhile isWhiteSpace s = s" using s digit_chars(2)[OF c] by simp
  show "take 1 s \<noteq> ''-''" "take 1 s \<noteq> ''+''"
    using s digit_chars(4,5)[OF c] by auto
  show "startsWithDigit decDigit s" using s digit_chars(1)[OF c]
    by (simp add: startsWithDigit_def)
  have snd: "cs = [] \<or> (\<exists>d ds. cs = d # ds \<and> d \<noteq> CHR ''x'' \<and> d \<noteq> CHR ''X'')"
  proof (cases cs)
    case Nil then show ?thesis by simp
  next
    case (Cons d ds)
    with s assms have "d \<in> set ''0123456789''" by auto
    then show ?thesis using Cons digit_chars(6,7) by blast
  qed
  then show "take 2 s \<noteq> ''0x''" "take 2 s \<noteq> ''0X''"
    using s by (auto simp: numeral_2_eq_2)
qed

lemma parseInt_showNat: "parseInt (showNat n) = Num (int n)"
  unfolding parseInt_def Let_def
  using digit_string[OF showNat_nonempty showNat_digits, of n]
  by (simp add: digitsValue_showNat)

lemma parseInt_minus_showNat: "parseInt (''-'' @ showNat n) = Num (- int n)"
proof -
  have ws: "\<not> isWhiteSpace (CHR ''-'')" by (simp add: isWhiteSpace_def)
  have dw: "dropWhile isWhiteSpace (''-'' @ showNat n) = ''-'' @ showNat n"
    using ws by simp
  show ?thesis
    unfolding parseInt_def Let_def dw
    using digit_string[OF showNat_nonempty showNat_digits, of n]
    by (simp add: digitsValue_showNat)
qed

lemma parseInt_toString: "parseInt (toString (Num n)) = Num n"
  using parseInt_showNat[of "nat n"] parseInt_minus_showNat[of "nat (- n)"] by simp

subsection \<open>Rows and cells\<close>

lemma cell_take: "i < k \<Longrightarrow> cell (take k row) i = cell row i"
  by (simp add: cell_def)

lemma rowToRecord_take: "rowToRecord (take 26 row) = rowToRecord row"
  by (simp add: rowToRecord_def cell_take)

lemma nonEmptyRow_take: "nonEmptyRow (take 26 row) = nonEmptyRow row"
  by (cases row) (simp_all add: nonEmptyRow_def cell_def)

lemma records_of_fetched:
  "map rowToRecord (filter nonEmptyRow (map (take 26) rows)) = records rows"
  by (induction rows) (simp_all add: records_def rowToRecord_take nonEmptyRow_take)

subsection \<open>What \<open>getAllProjects\<close> does to the world\<close>

lemma getAllProjects_try_cases:
  "getAllProjects_try w =
    (if auth_failure w \<noteq> None
     then (Inl (Error (''Google Sheets API initialization failed: '' @
                 ''Google Sheets client creation failed: '' @ the (auth_failure w))), w)
     else case faults w (length (requests w)) of
       Some e \<Rightarrow> (Inl e, w\<lparr>requests := requests w @ [SpreadsheetsGet]\<rparr>)
     | None \<Rightarrow>
        (case sheets w of
           [] \<Rightarrow> (Inl (Error ''No sheets found in the spreadsheet''),
                  w\<lparr>requests := requests w @ [SpreadsheetsGet]\<rparr>)
         | sheet # _ \<Rightarrow>
            (case faults w (Suc (length (requests w))) of
               Some e \<Rightarrow> (Inl e, w\<lparr>requests := requests w @
                  [SpreadsheetsGet, ValuesGet (or_default (title sheet) ''Sheet1'')]\<rparr>)
             | None \<Rightarrow> (Inr (records (take 999 (grid w))),
                  w\<lparr>requests := requests w @
                  [SpreadsheetsGet, ValuesGet (or_default (title sheet) ''Sheet1'')]\<rparr>))))"
  by (simp add: getAllProjects_try_def getGoogleSheetsClient_def createSheetsClient_def
      spreadsheets_get_def values_get_def remote_def records_of_fetched Let_def
      split: option.splits list.splits)

lemma getAllProjects_fst:
  "fst (getAllProjects w) =
     (if auth_failure w \<noteq> None \<or> faults w (length (requests w)) \<noteq> None \<or> sheets w = [] \<or>
         faults w (Suc (length (requests w))) \<noteq> None
      then [] else records (take 999 (grid w)))"
  by (auto simp: getAllProjects_def getAllProjects_try_cases split: option.splits list.splits)

lemma getAllProjects_snd_cases:
  "snd (getAllProjects w) = w\<lparr>requests := requests w @
     (if auth_failure w \<noteq> None then []
      else if faults w (length (requests w)) \<noteq> None \<or> sheets w = [] then [SpreadsheetsGet]
      else [SpreadsheetsGet, ValuesGet (or_default (title (hd (sheets w))) ''Sheet1'')])\<rparr>"
  by (auto simp: getAllProjects_def getAllProjects_try_cases split: option.splits list.splits)

lemma getAllProjects_snd:
  "\<exists>rs. snd (getAllProjects w) = w\<lparr>requests := requests w @ rs\<rparr> \<and>
        (\<forall>r\<in>set rs. \<not> isMutation r)"
  by (subst getAllProjects_snd_cases, rule exI, rule conjI, rule refl) simp

lemma getAllProjects_in_records:
  "set (fst (getAllProjects w)) \<subseteq> set (records (grid w))"
proof -
  have "set (records (take 999 g)) \<subseteq> set (records g)" for g
    unfolding records_def using set_take_subset[of 999 g] by auto
  then show ?thesis by (simp add: getAllProjects_fst)
qed

subsection \<open>Reading\<close>

text \<open>
  C8: whatever fails while the sheet is fetched (the client cannot be built, the
  metadata request is rejected, the spreadsheet lists no worksheet, the values request
  is rejected), \<open>getAllProjects\<close> returns the empty array; its result type has no error.
\<close>

theorem getAllProjects_soft_fail:
  assumes "auth_failure w \<noteq> None \<or> faults w (length (requests w)) \<noteq> None \<or> sheets w = [] \<or>
           faults w (Suc (length (requests w))) \<noteq> None"
  shows "fst (getAllProjects w) = []"
  using assms by (simp add: getAllProjects_fst)

theorem getAllProjects_soft_fail_witness:
  "faults (sampleWorld [[''ann@hines.com'', ''Ann'', ''Audit'']] (faultAt 1)) 1 \<noteq> None \<and>
   records (grid (sampleWorld [[''ann@hines.com'', ''Ann'', ''Audit'']] (faultAt 1))) \<noteq> [] \<and>
   fst (getAllProjects (sampleWorld [[''ann@hines.com'', ''Ann'', ''Audit'']] (faultAt 1))) = []"
  using getAllProjects_soft_fail
    [of "sampleWorld [[''ann@hines.com'', ''Ann'', ''Audit'']] (faultAt 1)"]
  by (simp add: sampleWorld_def faultAt_def records_def nonEmptyRow_def cell_def falsy_def)

text \<open>
  C9: \<open>getUserProjects\<close> returns the entries of \<open>getAllProjects\<close> whose email is exactly
  the given one, in the same order: a subsequence of them, each with that email.
\<close>

theorem getUserProjects_filter:
  "fst (getUserProjects w e) = filter (\<lambda>p. email p = e) (fst (getAllProjects w)) \<and>
   subseq (fst (getUserProjects w e)) (fst (getAllProjects w)) \<and>
   (\<forall>p\<in>set (fst (getUserProjects w e)). email p = e)"
  by (simp add: getUserProjects_def split: prod.splits)

theorem getUserProjects_filter_witness:
  "fst (getUserProjects (sampleWorld
      [[''ann@hines.com'', ''Ann'', ''Audit''], [''Ann@hines.com'', ''Ann'', ''Audit''],
       [''bob@hines.com'', ''Bob'', ''Build'']] noFaults) ''ann@hines.com'')
   = [rowToRecord [''ann@hines.com'', ''Ann'', ''Audit'']] \<and>
   length (fst (getAllProjects (sampleWorld
      [[''ann@hines.com'', ''Ann'', ''Audit''], [''Ann@hines.com'', ''Ann'', ''Audit''],
       [''bob@hines.com'', ''Bob'', ''Build'']] noFaults))) = 3 \<and>
   email (rowToRecord [''ann@hines.com'', ''Ann'', ''Audit'']) = ''ann@hines.com''"
  using getUserProjects_filter [of "sampleWorld
      [[''ann@hines.com'', ''Ann'', ''Audit''], [''Ann@hines.com'', ''Ann'', ''Audit''],
       [''bob@hines.com'', ''Bob'', ''Build'']] noFaults" "''ann@hines.com''"]
  by (simp add: getAllProjects_fst sampleWorld_def noFaults_def records_def nonEmptyRow_def
      cell_def falsy_def rowToRecord_def or_default_def)

subsection \<open>The date text\<close>








subsection \<open>The row mapping\<close>


lemma parseInt_no_number:
  assumes "\<not> isWhiteSpace c" "c \<noteq> CHR ''+''" "c \<noteq> CHR ''-''" "decDigit c = None"
  shows "parseInt (c # cs) = NaN"
proof -
  have c0: "c \<noteq> CHR ''0''" using assms(4) by (auto simp: decDigit_def)
  then have "take 2 (c # cs) \<noteq> ''0x''" "take 2 (c # cs) \<noteq> ''0X''"
    by (auto simp: numeral_2_eq_2)
  moreover have "dropWhile isWhiteSpace (c # cs) = c # cs" "take 1 (c # cs) \<noteq> ''-''"
    "take 1 (c # cs) \<noteq> ''+''" "\<not> startsWithDigit decDigit (c # cs)"
    using assms by (simp_all add: startsWithDigit_def)
  ultimately show ?thesis
    unfolding parseInt_def Let_def by (simp only: if_False if_True simp_thms)
qed

lemma hours_of_cell:
  "(if falsy (cell row i) then None else map_option parseInt (cell row i)) =
   (if i < length row \<and> row ! i \<noteq> [] then Some (parseInt (row ! i)) else None)"
  by (simp add: falsy_def cell_def)










text \<open>
  C2, as the code has it: an hours field is \<open>undefined\<close> exactly when its cell is
  absent or empty; any other cell is handed to \<open>parseInt\<close>. The decimal text of a safe
  integer gives that integer, and a cell that begins with neither white space, a sign
  nor a digit gives \<open>NaN\<close>, not \<open>undefined\<close>. The mapping has no failing branch.
\<close>

theorem rowToRecord_hours:
  "estimatedHours (rowToRecord row) =
     (if 9 < length row \<and> row ! 9 \<noteq> [] then Some (parseInt (row ! 9)) else None) \<and>
   actualHours (rowToRecord row) =
     (if 10 < length row \<and> row ! 10 \<noteq> [] then Some (parseInt (row ! 10)) else None) \<and>
   (\<bar>n\<bar> < 2 ^ 53 \<longrightarrow> parseInt (toString (Num n)) = Num n) \<and>
   (\<not> isWhiteSpace c \<and> c \<noteq> CHR ''+'' \<and> c \<noteq> CHR ''-'' \<and> decDigit c = None \<longrightarrow>
      parseInt (c # cs) = NaN)"
  by (simp add: rowToRecord_def hours_of_cell parseInt_no_number parseInt_toString
      del: toString.simps)

theorem rowToRecord_hours_witness:
  "estimatedHours (rowToRecord [''ann@hines.com'', ''Ann'', ''Audit'', '''', '''', '''', '''',
      '''', '''', ''abc'', '''', ''n'']) = Some NaN \<and>
   actualHours (rowToRecord [''ann@hines.com'', ''Ann'', ''Audit'', '''', '''', '''', '''',
      '''', '''', ''abc'', '''', ''n'']) = None \<and>
   estimatedHours (rowToRecord [''ann@hines.com'', ''Ann'', ''Audit'', '''', '''', '''', '''',
      '''', '''', ''40'']) = Some (Num 40) \<and>
   parseInt ''abc'' = NaN"
proof -
  let ?row = "[''ann@hines.com'', ''Ann'', ''Audit'', '''', '''', '''', '''',
      '''', '''', ''abc'', '''', ''n'']"
  let ?row' = "[''ann@hines.com'', ''Ann'', ''Audit'', '''', '''', '''', '''',
      '''', '''', ''40'']"
  note t = rowToRecord_hours [of ?row 40 "CHR ''a''" "''bc''"]
  note t' = rowToRecord_hours [of ?row' 40 "CHR ''a''" "''bc''"]
  have h: "\<not> isWhiteSpace (CHR ''a'') \<and> CHR ''a'' \<noteq> CHR ''+'' \<and> CHR ''a'' \<noteq> CHR ''-'' \<and>
      decDigit (CHR ''a'') = None"
    by (simp add: isWhiteSpace_def decDigit_def)
  have s: "toString (Num 40) = ''40''" by code_simp
  from t h have n: "parseInt ''abc'' = NaN" by blast
  from t have e: "estimatedHours (rowToRecord ?row) = Some (parseInt ''abc'')" by simp
  from t have a: "actualHours (rowToRecord ?row) = None" by simp
  from t' have "parseInt (toString (Num 40)) = Num 40" by simp
  then have p: "parseInt ''40'' = Num 40" unfolding s .
  from t' have "estimatedHours (rowToRecord ?row') = Some (parseInt ''40'')" by simp
  with p e a n show ?thesis by simp
qed

text \<open>
  C2 as stated fails: the cell \<open>abc\<close> is present and not numeric, and the field is
  \<open>NaN\<close>.
\<close>

theorem rowToRecord_hours_counterexample:
  "cell [''ann@hines.com'', ''Ann'', ''Audit'', '''', '''', '''', '''', '''', '''', ''abc''] 9
     = Some ''abc'' \<and>
   estimatedHours (rowToRecord
     [''ann@hines.com'', ''Ann'', ''Audit'', '''', '''', '''', '''', '''', '''', ''abc''])
     = Some NaN \<and>
   estimatedHours (rowToRecord
     [''ann@hines.com'', ''Ann'', ''Audit'', '''', '''', '''', '''', '''', '''', ''abc''])
     \<noteq> None"
  by code_simp

subsection \<open>Writing\<close>

lemma findIndex_None: "findIndex P xs = None \<longleftrightarrow> (\<forall>x\<in>set xs. \<not> P x)"
  by (induction xs) auto

lemma getAllProjects_grid: "grid (snd (getAllProjects w)) = grid w"
  by (simp add: getAllProjects_snd_cases)

lemma getAllProjects_mutations:
  "filter isMutation (requests (snd (getAllProjects w))) = filter isMutation (requests w)"
  by (simp add: getAllProjects_snd_cases)

lemma deleteProject_cases:
  "deleteProject w e t =
    (if auth_failure w \<noteq> None
     then (Inl (Error (''Google Sheets API initialization failed: '' @
                 ''Google Sheets client creation failed: '' @ the (auth_failure w))), w)
     else case faults w (length (requests w)) of
       Some err \<Rightarrow> (Inl err, w\<lparr>requests := requests w @ [SpreadsheetsGet]\<rparr>)
     | None \<Rightarrow>
        (case sheets w of
           [] \<Rightarrow> (Inl (Error ''No sheets found in the spreadsheet''),
                  w\<lparr>requests := requests w @ [SpreadsheetsGet]\<rparr>)
         | sheet # _ \<Rightarrow>
            (case findIndex (\<lambda>project. email project = e \<and> projectTitle project = t)
                    (fst (getAllProjects (w\<lparr>requests := requests w @ [SpreadsheetsGet]\<rparr>))) of
               None \<Rightarrow> (Inl (Error ''Project not found''),
                  snd (getAllProjects (w\<lparr>requests := requests w @ [SpreadsheetsGet]\<rparr>)))
             | Some i \<Rightarrow>
                 batchUpdate_deleteRows
                   (snd (getAllProjects (w\<lparr>requests := requests w @ [SpreadsheetsGet]\<rparr>)))
                   (case sheetId sheet of None \<Rightarrow> 0 | Some k \<Rightarrow> k) (i + 1) (i + 2))))"
  by (simp add: deleteProject_def getGoogleSheetsClient_def createSheetsClient_def
      spreadsheets_get_def remote_def Let_def split_beta
      split: option.splits list.splits)

lemma addOrUpdateProject_cases:
  "addOrUpdateProject now w pd =
    (if auth_failure w \<noteq> None
     then (Inl (Error (''Google Sheets API initialization failed: '' @
                 ''Google Sheets client creation failed: '' @ the (auth_failure w))), w)
     else case faults w (length (requests w)) of
       Some err \<Rightarrow> (Inl err, w\<lparr>requests := requests w @ [SpreadsheetsGet]\<rparr>)
     | None \<Rightarrow>
        (case sheets w of
           [] \<Rightarrow> (Inl (Error ''No sheets found in the spreadsheet''),
                  w\<lparr>requests := requests w @ [SpreadsheetsGet]\<rparr>)
         | sheet # _ \<Rightarrow>
            if falsy (email_opt pd) \<or> falsy (projectTitle_opt pd)
            then (Inl (Error ''Email and project title are required''),
                  w\<lparr>requests := requests w @ [SpreadsheetsGet]\<rparr>)
            else
              (case findIndex (\<lambda>project. email project = the (email_opt pd) \<and>
                        projectTitle project = the (projectTitle_opt pd))
                    (fst (getAllProjects (w\<lparr>requests := requests w @ [SpreadsheetsGet]\<rparr>))) of
                 Some i \<Rightarrow>
                   values_update
                     (snd (getAllProjects (w\<lparr>requests := requests w @ [SpreadsheetsGet]\<rparr>)))
                     (or_default (title sheet) ''Sheet1'') (i + 2)
                     (rowData now (the (email_opt pd)) (the (projectTitle_opt pd)) pd)
               | None \<Rightarrow>
                   values_append
                     (snd (getAllProjects (w\<lparr>requests := requests w @ [SpreadsheetsGet]\<rparr>)))
                     (or_default (title sheet) ''Sheet1'')
                     (rowData now (the (email_opt pd)) (the (projectTitle_opt pd)) pd))))"
  by (simp add: addOrUpdateProject_def getGoogleSheetsClient_def createSheetsClient_def
      spreadsheets_get_def remote_def Let_def split_beta falsy_def
      split: option.splits list.splits)


text \<open>
  The row that \<open>addOrUpdateProject\<close> sends, once the metadata request has answered, is the
  one \<open>recordToRow\<close> builds, and its error the one \<open>recordToRow\<close> throws.
\<close>

lemma addOrUpdateProject_recordToRow:
  assumes "auth_failure w = None" and "faults w (length (requests w)) = None"
    and "sheets w = sheet # rest"
  shows "addOrUpdateProject now w pd =
    (case recordToRow now pd of
       Inl e \<Rightarrow> (Inl e, w\<lparr>requests := requests w @ [SpreadsheetsGet]\<rparr>)
     | Inr rowData' \<Rightarrow>
        (case findIndex (\<lambda>project. email project = the (email_opt pd) \<and>
                  projectTitle project = the (projectTitle_opt pd))
                (fst (getAllProjects (w\<lparr>requests := requests w @ [SpreadsheetsGet]\<rparr>))) of
           Some i \<Rightarrow>
             values_update
               (snd (getAllProjects (w\<lparr>requests := requests w @ [SpreadsheetsGet]\<rparr>)))
               (or_default (title sheet) ''Sheet1'') (i + 2) rowData'
         | None \<Rightarrow>
             values_append
               (snd (getAllProjects (w\<lparr>requests := requests w @ [SpreadsheetsGet]\<rparr>)))
               (or_default (title sheet) ''Sheet1'') rowData'))"
  using assms
  by (auto simp: addOrUpdateProject_cases recordToRow_def falsy_def split: option.splits)

lemma getAllProjects_no_match:
  assumes "\<not> (\<exists>p\<in>set (records (grid w)). email p = e \<and> projectTitle p = t)"
  shows "findIndex (\<lambda>project. email project = e \<and> projectTitle project = t)
           (fst (getAllProjects (w\<lparr>requests := rs\<rparr>))) = None"
proof -
  have "set (fst (getAllProjects (w\<lparr>requests := rs\<rparr>))) \<subseteq> set (records (grid w))"
    using getAllProjects_in_records[of "w\<lparr>requests := rs\<rparr>"] by simp
  with assms show ?thesis by (auto simp: findIndex_None)
qed

text \<open>
  C6: when no record of the sheet has the given email and title, \<open>deleteProject\<close> fails,
  the sheet keeps its rows and no update, append or deletion is requested. The failure is
  \<open>Project not found\<close> whenever the client is built and the metadata request, which
  \<open>deleteProject\<close> issues first, is answered with a worksheet. A failure of that earlier
  step is surfaced as it is: the error of the client, the error of the rejected request,
  or \<open>No sheets found in the spreadsheet\<close>.
\<close>

theorem deleteProject_not_found:
  assumes "\<not> (\<exists>p\<in>set (records (grid w)). email p = e \<and> projectTitle p = t)"
  shows "(auth_failure w = None \<and> faults w (length (requests w)) = None \<and> sheets w \<noteq> [] \<longrightarrow>
        fst (deleteProject w e t) = Inl (Error ''Project not found'')) \<and>
     grid (snd (deleteProject w e t)) = grid w \<and>
     filter isMutation (requests (snd (deleteProject w e t))) = filter isMutation (requests w) \<and>
     fst (deleteProject w e t) =
       Inl (case auth_failure w of
              Some m \<Rightarrow> Error (''Google Sheets API initialization failed: '' @
                               ''Google Sheets client creation failed: '' @ m)
            | None \<Rightarrow>
               (case faults w (length (requests w)) of
                  Some rejected \<Rightarrow> rejected
                | None \<Rightarrow>
                    if sheets w = [] then Error ''No sheets found in the spreadsheet''
                    else Error ''Project not found''))"
  using getAllProjects_no_match[OF assms]
  by (simp add: deleteProject_cases getAllProjects_grid getAllProjects_mutations
      split: option.splits list.splits)

theorem deleteProject_not_found_witness:
  "fst (deleteProject (sampleWorld [[''bob@hines.com'', ''Bob'', ''Build'']] noFaults)
      ''ann@hines.com'' ''Audit'') = Inl (Error ''Project not found'') \<and>
   grid (snd (deleteProject (sampleWorld [[''bob@hines.com'', ''Bob'', ''Build'']] noFaults)
      ''ann@hines.com'' ''Audit'')) = [[''bob@hines.com'', ''Bob'', ''Build'']] \<and>
   filter isMutation (requests (snd (deleteProject
      (sampleWorld [[''bob@hines.com'', ''Bob'', ''Build'']] noFaults)
      ''ann@hines.com'' ''Audit''))) = [] \<and>
   fst (deleteProject (sampleWorld [[''bob@hines.com'', ''Bob'', ''Build'']] (faultAt 2))
      ''ann@hines.com'' ''Audit'') = Inl (Error ''Project not found'')"
proof -
  let ?w = "sampleWorld [[''bob@hines.com'', ''Bob'', ''Build'']] noFaults"
  let ?w' = "sampleWorld [[''bob@hines.com'', ''Bob'', ''Build'']] (faultAt 2)"
  have h: "\<not> (\<exists>p\<in>set (records (grid ?w)). email p = ''ann@hines.com'' \<and>
      projectTitle p = ''Audit'')"
    and h': "\<not> (\<exists>p\<in>set (records (grid ?w')). email p = ''ann@hines.com'' \<and>
      projectTitle p = ''Audit'')"
    by (simp_all add: sampleWorld_def records_def nonEmptyRow_def cell_def falsy_def
        rowToRecord_def or_default_def)
  note t = deleteProject_not_found [OF h]
  note t' = deleteProject_not_found [OF h']
  have ok: "auth_failure ?w = None \<and> faults ?w (length (requests ?w)) = None \<and> sheets ?w \<noteq> []"
    and ok': "auth_failure ?w' = None \<and> faults ?w' (length (requests ?w')) = None \<and>
      sheets ?w' \<noteq> []"
    by (simp_all add: sampleWorld_def noFaults_def faultAt_def)
  from t ok have a: "fst (deleteProject ?w ''ann@hines.com'' ''Audit'')
      = Inl (Error ''Project not found'')" by blast
  from t have "grid (snd (deleteProject ?w ''ann@hines.com'' ''Audit'')) = grid ?w"
    by blast
  then have b: "grid (snd (deleteProject ?w ''ann@hines.com'' ''Audit''))
      = [[''bob@hines.com'', ''Bob'', ''Build'']]" by (simp add: sampleWorld_def)
  from t have "filter isMutation (requests (snd (deleteProject ?w ''ann@hines.com'' ''Audit'')))
      = filter isMutation (requests ?w)" by blast
  then have c: "filter isMutation (requests (snd (deleteProject ?w ''ann@hines.com'' ''Audit'')))
      = []" by (simp add: sampleWorld_def)
  from t' ok' have d: "fst (deleteProject ?w' ''ann@hines.com'' ''Audit'')
      = Inl (Error ''Project not found'')" by blast
  from a b c d show ?thesis by blast
qed

text \<open>
  A rejected metadata request is what the caller of \<open>deleteProject\<close> sees, as on every
  write path.
\<close>

lemma deleteProject_upstream_failure:
  "fst (deleteProject (sampleWorld [[''bob@hines.com'', ''Bob'', ''Build'']] (faultAt 0))
      ''ann@hines.com'' ''Audit'') = Inl (Error ''503 Service Unavailable'')"
  by (simp add: deleteProject_cases sampleWorld_def faultAt_def)

text \<open>
  C7, as the code has it: with the email or the title absent or empty,
  \<open>addOrUpdateProject\<close> fails, the sheet keeps its rows and no update, append or deletion
  is requested. The error is \<open>Email and project title are required\<close> whenever the client
  is built and the metadata request, which comes first, is answered with a worksheet;
  otherwise it is the error of that earlier step: the error of the client, the error of
  the rejected request, or \<open>No sheets found in the spreadsheet\<close>.
\<close>

theorem addOrUpdateProject_requires_key:
  assumes "falsy (email_opt pd) \<or> falsy (projectTitle_opt pd)"
  shows "fst (addOrUpdateProject now w pd) =
       Inl (case auth_failure w of
              Some m \<Rightarrow> Error (''Google Sheets API initialization failed: '' @
                               ''Google Sheets client creation failed: '' @ m)
            | None \<Rightarrow>
               (case faults w (length (requests w)) of
                  Some rejected \<Rightarrow> rejected
                | None \<Rightarrow>
                    if sheets w = [] then Error ''No sheets found in the spreadsheet''
                    else Error ''Email and project title are required'')) \<and>
     grid (snd (addOrUpdateProject now w pd)) = grid w \<and>
     filter isMutation (requests (snd (addOrUpdateProject now w pd)))
       = filter isMutation (requests w) \<and>
     (auth_failure w = None \<and> faults w (length (requests w)) = None \<and> sheets w \<noteq> [] \<longrightarrow>
        fst (addOrUpdateProject now w pd) = Inl (Error ''Email and project title are required''))"
  using assms
  by (simp add: addOrUpdateProject_cases split: option.splits list.splits)

theorem addOrUpdateProject_requires_key_witness:
  "fst (addOrUpdateProject sampleDate (sampleWorld [] noFaults)
      (sampleBody (Some ''ann@hines.com'') None))
     = Inl (Error ''Email and project title are required'') \<and>
   grid (snd (addOrUpdateProject sampleDate (sampleWorld [] noFaults)
      (sampleBody (Some ''ann@hines.com'') None))) = [] \<and>
   fst (addOrUpdateProject sampleDate (sampleWorld [] (faultAt 0))
      (sampleBody (Some ''ann@hines.com'') (Some '''')))
     = Inl (Error ''503 Service Unavailable'') \<and>
   fst (addOrUpdateProject sampleDate ((sampleWorld [] noFaults)\<lparr>sheets := []\<rparr>)
      (sampleBody None (Some ''Audit'')))
     = Inl (Error ''No sheets found in the spreadsheet'')"
proof -
  let ?w = "sampleWorld [] noFaults"
  let ?pd = "sampleBody (Some ''ann@hines.com'') None"
  let ?w1 = "sampleWorld [] (faultAt 0)"
  let ?pd1 = "sampleBody (Some ''ann@hines.com'') (Some '''')"
  let ?w2 = "(sampleWorld [] noFaults)\<lparr>sheets := []\<rparr>"
  let ?pd2 = "sampleBody None (Some ''Audit'')"
  have h: "falsy (email_opt ?pd) \<or> falsy (projectTitle_opt ?pd)"
    and h1: "falsy (email_opt ?pd1) \<or> falsy (projectTitle_opt ?pd1)"
    and h2: "falsy (email_opt ?pd2) \<or> falsy (projectTitle_opt ?pd2)"
    by (simp_all add: sampleBody_def falsy_def)
  note t = addOrUpdateProject_requires_key [OF h, of sampleDate ?w]
  note t1 = addOrUpdateProject_requires_key [OF h1, of sampleDate ?w1]
  note t2 = addOrUpdateProject_requires_key [OF h2, of sampleDate ?w2]
  have ok: "auth_failure ?w = None \<and> faults ?w (length (requests ?w)) = None \<and> sheets ?w \<noteq> []"
    by (simp add: sampleWorld_def noFaults_def)
  from t ok have a: "fst (addOrUpdateProject sampleDate ?w ?pd)
      = Inl (Error ''Email and project title are required'')" by blast
  from t have "grid (snd (addOrUpdateProject sampleDate ?w ?pd)) = grid ?w"
    by blast
  then have b: "grid (snd (addOrUpdateProject sampleDate ?w ?pd)) = []"
    by (simp add: sampleWorld_def)
  from t1 have c: "fst (addOrUpdateProject sampleDate ?w1 ?pd1)
      = Inl (Error ''503 Service Unavailable'')"
    by (simp add: sampleWorld_def faultAt_def)
  from t2 have d: "fst (addOrUpdateProject sampleDate ?w2 ?pd2)
      = Inl (Error ''No sheets found in the spreadsheet'')"
    by (simp add: sampleWorld_def noFaults_def)
  from a b c d show ?thesis by blast
qed

text \<open>
  C7 as stated fails: with the metadata request rejected, an empty title is not reported;
  the rejection is.
\<close>

theorem addOrUpdateProject_requires_key_counterexample:
  "falsy (projectTitle_opt (sampleBody (Some ''ann@hines.com'') (Some ''''))) \<and>
   fst (addOrUpdateProject sampleDate (sampleWorld [] (faultAt 0))
      (sampleBody (Some ''ann@hines.com'') (Some '''')))
     = Inl (Error ''503 Service Unavailable'') \<and>
   fst (addOrUpdateProject sampleDate (sampleWorld [] (faultAt 0))
      (sampleBody (Some ''ann@hines.com'') (Some '''')))
     \<noteq> Inl (Error ''Email and project title are required'')"
  by (simp add: addOrUpdateProject_cases sampleWorld_def faultAt_def sampleBody_def falsy_def)

text \<open>
  C3, as the code has it: \<open>addOrUpdateProject\<close> checks the email and the title after the
  metadata request. An invocation that fails with \<open>Email and project title are required\<close>
  has issued exactly that one request and nothing else: no values are read, nothing is
  written.
\<close>

theorem addOrUpdateProject_validates_after_metadata:
  assumes "falsy (email_opt pd) \<or> falsy (projectTitle_opt pd)"
  shows "(fst (addOrUpdateProject now w pd) = Inl (Error ''Email and project title are required'')
       \<longrightarrow> snd (addOrUpdateProject now w pd) = w\<lparr>requests := requests w @ [SpreadsheetsGet]\<rparr>) \<and>
     (auth_failure w = None \<and> faults w (length (requests w)) = None \<and> sheets w \<noteq> [] \<longrightarrow>
        addOrUpdateProject now w pd =
          (Inl (Error ''Email and project title are required''),
           w\<lparr>requests := requests w @ [SpreadsheetsGet]\<rparr>))"
  using assms
  by (simp add: addOrUpdateProject_cases split: option.splits list.splits)

theorem addOrUpdateProject_validates_after_metadata_witness:
  "addOrUpdateProject sampleDate (sampleWorld [] noFaults) (sampleBody None (Some ''Audit''))
     = (Inl (Error ''Email and project title are required''),
        (sampleWorld [] noFaults)\<lparr>requests := [SpreadsheetsGet]\<rparr>) \<and>
   fst (addOrUpdateProject sampleDate (sampleWorld [] (faultAt 1))
      (sampleBody (Some ''ann@hines.com'') (Some '''')))
     = Inl (Error ''Email and project title are required'') \<and>
   snd (addOrUpdateProject sampleDate (sampleWorld [] (faultAt 1))
      (sampleBody (Some ''ann@hines.com'') (Some '''')))
     = (sampleWorld [] (faultAt 1))\<lparr>requests := [SpreadsheetsGet]\<rparr>"
proof -
  let ?w = "sampleWorld [] noFaults"
  let ?pd = "sampleBody None (Some ''Audit'')"
  let ?w' = "sampleWorld [] (faultAt 1)"
  let ?pd' = "sampleBody (Some ''ann@hines.com'') (Some '''')"
  have h: "falsy (email_opt ?pd) \<or> falsy (projectTitle_opt ?pd)"
    and h': "falsy (email_opt ?pd') \<or> falsy (projectTitle_opt ?pd')"
    by (simp_all add: sampleBody_def falsy_def)
  note t = addOrUpdateProject_validates_after_metadata [OF h, of sampleDate ?w]
  note t' = addOrUpdateProject_validates_after_metadata [OF h', of sampleDate ?w']
  have ok: "auth_failure ?w = None \<and> faults ?w (length (requests ?w)) = None \<and> sheets ?w \<noteq> []"
    by (simp add: sampleWorld_def noFaults_def)
  from t ok have "addOrUpdateProject sampleDate ?w ?pd =
     (Inl (Error ''Email and project title are required''),
      ?w\<lparr>requests := requests ?w @ [SpreadsheetsGet]\<rparr>)" by blast
  then have first: "addOrUpdateProject sampleDate ?w ?pd =
     (Inl (Error ''Email and project title are required''), ?w\<lparr>requests := [SpreadsheetsGet]\<rparr>)"
    by (simp add: sampleWorld_def)
  have failed: "fst (addOrUpdateProject sampleDate ?w' ?pd')
      = Inl (Error ''Email and project title are required'')"
    by (simp add: addOrUpdateProject_cases sampleWorld_def faultAt_def sampleBody_def falsy_def)
  with t' have "snd (addOrUpdateProject sampleDate ?w' ?pd')
      = ?w'\<lparr>requests := requests ?w' @ [SpreadsheetsGet]\<rparr>" by blast
  then have "snd (addOrUpdateProject sampleDate ?w' ?pd') = ?w'\<lparr>requests := [SpreadsheetsGet]\<rparr>"
    by (simp add: sampleWorld_def)
  with first failed show ?thesis by blast
qed

text \<open>
  C3 as stated fails: the validation error of an empty title comes after the request
  \<open>spreadsheets.get\<close>.
\<close>

theorem addOrUpdateProject_validates_after_metadata_counterexample:
  "requests (sampleWorld [] noFaults) = [] \<and>
   fst (addOrUpdateProject sampleDate (sampleWorld [] noFaults)
      (sampleBody (Some ''ann@hines.com'') (Some '''')))
     = Inl (Error ''Email and project title are required'') \<and>
   requests (snd (addOrUpdateProject sampleDate (sampleWorld [] noFaults)
      (sampleBody (Some ''ann@hines.com'') (Some '''')))) = [SpreadsheetsGet]"
  by (simp add: addOrUpdateProject_cases sampleWorld_def noFaults_def sampleBody_def falsy_def)

subsection \<open>The route\<close>




subsection \<open>Doubles\<close>

text \<open>
  \<open>bitlen\<close> counts binary digits, \<open>ilog2\<close> finds the power of two below a positive
  rational, and rounding to the nearest double moves a number by at most one part in
  \<open>2^53\<close>.
\<close>

lemma half_bounds:
  "(a::nat) \<le> n div 2 \<Longrightarrow> n div 2 < 2 * a \<Longrightarrow> 2 * a \<le> n \<and> n < 2 * (2 * a)"
  by arith

lemma bitlen_bounds: "0 < n \<Longrightarrow> 2 ^ (bitlen n - 1) \<le> n \<and> n < 2 ^ bitlen n"
proof (induction n rule: bitlen.induct)
  case (1 n)
  show ?case
  proof (cases "n div 2 = 0")
    case True
    with 1(2) have "n = 1" by presburger
    then show ?thesis by (simp add: bitlen.simps)
  next
    case False
    then have pos: "0 < n div 2" by simp
    have "0 < bitlen (n div 2)" using pos by (subst bitlen.simps) simp
    then obtain j where j: "bitlen (n div 2) = Suc j" by (cases "bitlen (n div 2)") auto
    from 1(1)[OF _ pos] 1(2)
    have "2 ^ j \<le> n div 2" "n div 2 < 2 * 2 ^ j" by (simp_all add: j)
    then have "2 * 2 ^ j \<le> n \<and> n < 2 * (2 * 2 ^ j)" by (rule half_bounds)
    moreover have "bitlen n = Suc (Suc j)" using 1(2) j by (subst bitlen.simps) simp
    ultimately show ?thesis by simp
  qed
qed

lemma roundHalfEven_near: "\<bar>of_int (roundHalfEven x) - x\<bar> \<le> 1 / 2"
proof -
  define d where "d = x - of_int \<lfloor>x\<rfloor>"
  have d: "0 \<le> d" "d < 1" unfolding d_def by linarith+
  have "of_int (roundHalfEven x) - x =
     (if d < 1 / 2 then - d else if 1 / 2 < d then 1 - d
      else if even \<lfloor>x\<rfloor> then - d else 1 - d)"
    by (simp add: roundHalfEven_def Let_def d_def)
  then show ?thesis using d by (simp add: abs_if split: if_splits)
qed

lemma bitlen_pos: "0 < n \<Longrightarrow> 0 < bitlen n"
  by (subst bitlen.simps) simp

lemma pow2_le_of_nat: "2 ^ k \<le> (n::nat) \<Longrightarrow> (2::rat) ^ k \<le> of_nat n"
proof -
  assume "2 ^ k \<le> n"
  then have "(of_nat (2 ^ k) :: rat) \<le> of_nat n" by (rule of_nat_mono)
  then show ?thesis by simp
qed

lemma of_nat_less_pow2: "(n::nat) < 2 ^ k \<Longrightarrow> (of_nat n + 1 :: rat) \<le> 2 ^ k"
proof -
  assume "n < 2 ^ k"
  then have "Suc n \<le> 2 ^ k" by simp
  then have "(of_nat (Suc n) :: rat) \<le> of_nat (2 ^ k)" by (rule of_nat_mono)
  then show ?thesis by (simp add: add.commute)
qed

lemma ilog2_lower: assumes "0 < x" shows "2 powi ilog2 x \<le> x"
proof (cases "1 \<le> x")
  case True
  define n where "n = nat \<lfloor>x\<rfloor>"
  have "1 \<le> \<lfloor>x\<rfloor>" using True by simp
  then have n0: "0 < n" unfolding n_def by simp
  have "of_int \<lfloor>x\<rfloor> \<le> x" by simp
  moreover have "0 \<le> \<lfloor>x\<rfloor>" using \<open>1 \<le> \<lfloor>x\<rfloor>\<close> by linarith
  then have "(of_nat n :: rat) = of_int \<lfloor>x\<rfloor>" unfolding n_def by (rule of_nat_nat)
  ultimately have nx: "of_nat n \<le> x" by simp
  have il: "ilog2 x = int (bitlen n) - 1"
    using True by (simp add: ilog2_def n_def)
  obtain j where j: "bitlen n = Suc j"
    using bitlen_pos[OF n0] by (cases "bitlen n") auto
  have "2 ^ j \<le> n" using bitlen_bounds[OF n0] j by simp
  then have "(2::rat) ^ j \<le> of_nat n" by (rule pow2_le_of_nat)
  then have "(2::rat) ^ j \<le> x" using nx by (rule order_trans)
  moreover have "ilog2 x = int j" using il j by simp
  ultimately show ?thesis by simp
next
  case False
  define m where "m = nat \<lfloor>1 / x\<rfloor>"
  define k where "k = - int (bitlen m)"
  show ?thesis
  proof (cases "x < 2 powi (k + 1)")
    case True
    have il: "ilog2 x = k" using False True by (simp add: ilog2_def m_def k_def Let_def)
    have big: "1 \<le> 1 / x" using False assms by simp
    then have f1: "1 \<le> \<lfloor>1 / x\<rfloor>" by simp
    then have m0: "0 < m" unfolding m_def by simp
    have "0 \<le> \<lfloor>1 / x\<rfloor>" using f1 by linarith
    then have mf: "(of_nat m :: rat) = of_int \<lfloor>1 / x\<rfloor>" unfolding m_def by (rule of_nat_nat)
    have "1 / x < of_int \<lfloor>1 / x\<rfloor> + 1" by linarith
    then have "1 / x < of_nat m + 1" using mf by simp
    moreover have "(of_nat m + 1 :: rat) \<le> 2 ^ bitlen m"
      using bitlen_bounds[OF m0] by (intro of_nat_less_pow2) simp
    ultimately have "1 / x < 2 ^ bitlen m" by (rule less_le_trans)
    then have "1 < 2 ^ bitlen m * x" using assms by (simp add: divide_less_eq)
    then have "1 / 2 ^ bitlen m < x" by (simp add: divide_less_eq mult.commute)
    moreover have "(2::rat) powi k = 1 / 2 ^ bitlen m"
      unfolding k_def by (simp add: power_int_minus divide_inverse)
    ultimately show ?thesis using il by simp
  next
    case c: False
    then have "ilog2 x = k + 1" using False by (simp add: ilog2_def m_def k_def Let_def)
    then show ?thesis using c by simp
  qed
qed

lemma nearestDouble_error: "\<bar>nearestDouble x - x\<bar> \<le> \<bar>x\<bar> / 2 ^ 53"
proof (cases "x = 0")
  case True
  then show ?thesis by (simp add: nearestDouble_def)
next
  case False
  define e where "e = ilog2 \<bar>x\<bar> - 52"
  define p :: rat where "p = 2 powi e"
  define y where "y = \<bar>x\<bar> / p"
  define m :: rat where "m = of_int (roundHalfEven y)"
  have ppos: "0 < p" unfolding p_def by (simp add: zero_less_power_int)
  have nd: "nearestDouble x = sgn x * m * p"
    using False by (simp add: nearestDouble_def e_def p_def y_def m_def Let_def)
  have ax: "\<bar>x\<bar> = y * p" using ppos by (simp add: y_def)
  have "nearestDouble x - x = sgn x * (m * p - \<bar>x\<bar>)"
    by (simp add: nd right_diff_distrib sgn_mult_abs mult.assoc)
  also have "\<dots> = sgn x * ((m - y) * p)" by (simp add: ax left_diff_distrib)
  finally have "\<bar>nearestDouble x - x\<bar> = \<bar>sgn x\<bar> * (\<bar>m - y\<bar> * \<bar>p\<bar>)"
    by (simp only: abs_mult)
  also have "\<dots> = \<bar>m - y\<bar> * p" using False ppos by (simp add: abs_sgn_eq)
  also have "\<dots> \<le> 1 / 2 * p"
    using roundHalfEven_near[of y] ppos unfolding m_def by (intro mult_right_mono) simp_all
  also have "1 / 2 * p = 2 powi ilog2 \<bar>x\<bar> / 2 ^ 53"
    unfolding p_def e_def by (simp add: power_int_diff)
  also have "\<dots> \<le> \<bar>x\<bar> / 2 ^ 53"
    using ilog2_lower[of "\<bar>x\<bar>"] False by (simp add: divide_right_mono)
  finally show ?thesis .
qed

lemma ilog2_upper: assumes "0 < x" shows "x < 2 powi (ilog2 x + 1)"
proof (cases "1 \<le> x")
  case True
  define n where "n = nat \<lfloor>x\<rfloor>"
  have "1 \<le> \<lfloor>x\<rfloor>" using True by simp
  then have n0: "0 < n" unfolding n_def by simp
  have "0 \<le> \<lfloor>x\<rfloor>" using \<open>1 \<le> \<lfloor>x\<rfloor>\<close> by linarith
  then have nf: "(of_nat n :: rat) = of_int \<lfloor>x\<rfloor>" unfolding n_def by (rule of_nat_nat)
  have "x < of_int \<lfloor>x\<rfloor> + 1" by linarith
  then have "x < of_nat n + 1" using nf by simp
  moreover have "(of_nat n + 1 :: rat) \<le> 2 ^ bitlen n"
    using bitlen_bounds[OF n0] by (intro of_nat_less_pow2) simp
  ultimately have "x < 2 ^ bitlen n" by (rule less_le_trans)
  moreover have "ilog2 x + 1 = int (bitlen n)"
    using True by (simp add: ilog2_def n_def)
  ultimately show ?thesis by simp
next
  case False
  define m where "m = nat \<lfloor>1 / x\<rfloor>"
  define k where "k = - int (bitlen m)"
  show ?thesis
  proof (cases "x < 2 powi (k + 1)")
    case True
    then show ?thesis using False by (simp add: ilog2_def m_def k_def Let_def)
  next
    case c: False
    have il: "ilog2 x = k + 1" using False c by (simp add: ilog2_def m_def k_def Let_def)
    have big: "1 \<le> 1 / x" using False assms by simp
    then have f1: "1 \<le> \<lfloor>1 / x\<rfloor>" by simp
    then have m0: "0 < m" unfolding m_def by simp
    have "0 \<le> \<lfloor>1 / x\<rfloor>" using f1 by linarith
    then have mf: "(of_nat m :: rat) = of_int \<lfloor>1 / x\<rfloor>" unfolding m_def by (rule of_nat_nat)
    obtain j where j: "bitlen m = Suc j"
      using bitlen_pos[OF m0] by (cases "bitlen m") auto
    have "2 ^ j \<le> m" using bitlen_bounds[OF m0] j by simp
    then have "(2::rat) ^ j \<le> of_nat m" by (rule pow2_le_of_nat)
    also have "(of_nat m :: rat) \<le> 1 / x" unfolding mf by (rule of_int_floor_le)
    finally have "(2::rat) ^ j \<le> 1 / x" .
    then have "2 ^ j * x \<le> 1" using assms by (simp add: le_divide_eq)
    then have "x \<le> 1 / 2 ^ j" by (simp add: le_divide_eq mult.commute)
    moreover have "(1::rat) / 2 ^ j < 2 / 2 ^ j" by (simp add: divide_strict_right_mono)
    moreover have "(2::rat) powi (k + 1 + 1) = 2 / 2 ^ j"
    proof -
      have eq: "k + 1 + 1 = 1 - int j" unfolding k_def j by simp
      have "(2::rat) powi (1 - int j) = 2 / 2 ^ j" by (simp add: power_int_diff)
      then show ?thesis unfolding eq .
    qed
    ultimately show ?thesis using il by simp
  qed
qed

text \<open>
  The exponent that \<open>nearestDouble\<close> takes leaves a significand of exactly 53 bits.
\<close>

lemma significand_range:
  assumes "x \<noteq> 0"
  shows "2 ^ 52 \<le> \<bar>x\<bar> / 2 powi (ilog2 \<bar>x\<bar> - 52) \<and> \<bar>x\<bar> / 2 powi (ilog2 \<bar>x\<bar> - 52) < 2 ^ 53"
proof -
  define k where "k = ilog2 \<bar>x\<bar>"
  have pos: "0 < \<bar>x\<bar>" using assms by simp
  have lo: "2 powi k \<le> \<bar>x\<bar>" unfolding k_def using pos by (rule ilog2_lower)
  have hi: "\<bar>x\<bar> < 2 powi (k + 1)" unfolding k_def using pos by (rule ilog2_upper)
  have p: "(0::rat) < 2 powi (k - 52)" by (simp add: zero_less_power_int)
  have a: "(2::rat) powi k = 2 ^ 52 * 2 powi (k - 52)"
    by (simp add: power_int_diff)
  have b: "(2::rat) powi (k + 1) = 2 ^ 53 * 2 powi (k - 52)"
    by (simp add: power_int_diff power_int_add)
  from lo have "2 ^ 52 \<le> \<bar>x\<bar> / 2 powi (k - 52)"
    unfolding a using p by (simp add: le_divide_eq)
  moreover from hi have "\<bar>x\<bar> / 2 powi (k - 52) < 2 ^ 53"
    unfolding b using p by (simp add: divide_less_eq)
  ultimately show ?thesis unfolding k_def by simp
qed

text \<open>The two roundings of the completion rate together.\<close>

lemma completionRate_error:
  assumes "0 \<le> x"
  shows "\<bar>nearestDouble (nearestDouble x * 100) - x * 100\<bar> \<le> x * 100 / 2 ^ 51"
proof -
  define a where "a = nearestDouble x"
  define b where "b = nearestDouble (a * 100)"
  have ea: "\<bar>a - x\<bar> \<le> x / 2 ^ 53"
    using nearestDouble_error[of x] assms by (simp add: a_def)
  have eb: "\<bar>b - a * 100\<bar> \<le> \<bar>a\<bar> * 100 / 2 ^ 53"
    using nearestDouble_error[of "a * 100"] by (simp add: b_def abs_mult)
  have "x / 2 ^ 53 \<le> x" using assms by (simp add: divide_le_eq)
  with ea have "\<bar>a\<bar> \<le> 2 * x" by linarith
  then have "\<bar>a\<bar> * 100 / 2 ^ 53 \<le> 2 * x * 100 / 2 ^ 53"
    by (simp add: divide_right_mono)
  with eb have eb': "\<bar>b - a * 100\<bar> \<le> 2 * x * 100 / 2 ^ 53" by linarith
  have "b - x * 100 = (b - a * 100) + 100 * (a - x)" by simp
  then have "\<bar>b - x * 100\<bar> \<le> \<bar>b - a * 100\<bar> + \<bar>100 * (a - x)\<bar>"
    by (simp only: abs_triangle_ineq)
  moreover have "\<bar>100 * (a - x)\<bar> = 100 * \<bar>a - x\<bar>" by (subst abs_mult) simp
  ultimately have "\<bar>b - x * 100\<bar> \<le> \<bar>b - a * 100\<bar> + 100 * \<bar>a - x\<bar>"
    by (simp only:)
  also have "\<dots> \<le> 2 * x * 100 / 2 ^ 53 + 100 * (x / 2 ^ 53)"
    using eb' ea by (intro add_mono mult_left_mono) simp_all
  also have "\<dots> \<le> x * 100 / 2 ^ 51" using assms by simp
  finally show ?thesis by (simp add: a_def b_def)
qed

lemma nearestDouble_values: "nearestDouble 1 = 1" "nearestDouble 100 = 100"
  by code_simp+


lemma getProjectStats_fields:
  "totalProjects (fst (getProjectStats timeValue today w)) = length (fst (getAllProjects w))"
  "completedProjects (fst (getProjectStats timeValue today w)) =
     length (filter (\<lambda>p. status p = ''Completed'') (fst (getAllProjects w)))"
  "completionRate (fst (getProjectStats timeValue today w)) =
     (if length (fst (getAllProjects w)) > 0
      then nearestDouble (nearestDouble
             (of_nat (length (filter (\<lambda>p. status p = ''Completed'') (fst (getAllProjects w))))
              / of_nat (length (fst (getAllProjects w)))) * 100)
      else 0)"
  by (simp_all add: getProjectStats_def Let_def split_beta)

text \<open>
  C10, as the code has it: with no project the completion rate is 0 and nothing is
  divided. Otherwise it is the double-precision value of \<open>(completed / total) * 100\<close>:
  the quotient is rounded to a double, and so is the product. It is exactly 0 when no
  project is completed and exactly 100 when all are, and it differs from the exact
  quotient times 100 by at most one part in \<open>2^51\<close>.
\<close>

theorem getProjectStats_completionRate:
  "(fst (getAllProjects w) = [] \<longrightarrow>
      completionRate (fst (getProjectStats timeValue today w)) = 0) \<and>
   (fst (getAllProjects w) \<noteq> [] \<longrightarrow>
      completionRate (fst (getProjectStats timeValue today w)) =
        nearestDouble (nearestDouble
          (of_nat (completedProjects (fst (getProjectStats timeValue today w)))
           / of_nat (totalProjects (fst (getProjectStats timeValue today w)))) * 100) \<and>
      \<bar>completionRate (fst (getProjectStats timeValue today w))
         - of_nat (completedProjects (fst (getProjectStats timeValue today w)))
           / of_nat (totalProjects (fst (getProjectStats timeValue today w))) * 100\<bar>
        \<le> of_nat (completedProjects (fst (getProjectStats timeValue today w)))
           / of_nat (totalProjects (fst (getProjectStats timeValue today w))) * 100 / 2 ^ 51) \<and>
   (completedProjects (fst (getProjectStats timeValue today w)) = 0 \<longrightarrow>
      completionRate (fst (getProjectStats timeValue today w)) = 0) \<and>
   (fst (getAllProjects w) \<noteq> [] \<and>
    completedProjects (fst (getProjectStats timeValue today w))
      = totalProjects (fst (getProjectStats timeValue today w)) \<longrightarrow>
      completionRate (fst (getProjectStats timeValue today w)) = 100) \<and>
   totalProjects (fst (getProjectStats timeValue today w)) = length (fst (getAllProjects w)) \<and>
   completedProjects (fst (getProjectStats timeValue today w)) =
     length (filter (\<lambda>p. status p = ''Completed'') (fst (getAllProjects w)))"
proof -
  let ?st = "fst (getProjectStats timeValue today w)"
  let ?c = "of_nat (completedProjects ?st) :: rat"
  let ?t = "of_nat (totalProjects ?st) :: rat"
  have z: "nearestDouble 0 = 0" by (simp add: nearestDouble_def)
  have a: "fst (getAllProjects w) = [] \<longrightarrow> completionRate ?st = 0"
    by (simp add: getProjectStats_fields)
  have b: "fst (getAllProjects w) \<noteq> [] \<longrightarrow>
      completionRate ?st = nearestDouble (nearestDouble (?c / ?t) * 100)"
    by (simp add: getProjectStats_fields)
  have "0 \<le> ?c / ?t" by simp
  then have "\<bar>nearestDouble (nearestDouble (?c / ?t) * 100) - ?c / ?t * 100\<bar>
      \<le> ?c / ?t * 100 / 2 ^ 51" by (rule completionRate_error)
  with b have c: "fst (getAllProjects w) \<noteq> [] \<longrightarrow>
      \<bar>completionRate ?st - ?c / ?t * 100\<bar> \<le> ?c / ?t * 100 / 2 ^ 51" by simp
  have d: "completedProjects ?st = 0 \<longrightarrow> completionRate ?st = 0"
    by (simp add: getProjectStats_fields z)
  have e: "fst (getAllProjects w) \<noteq> [] \<and> completedProjects ?st = totalProjects ?st \<longrightarrow>
      completionRate ?st = 100"
    by (simp add: getProjectStats_fields nearestDouble_values)
  have f: "totalProjects ?st = length (fst (getAllProjects w))"
    "completedProjects ?st =
       length (filter (\<lambda>p. status p = ''Completed'') (fst (getAllProjects w)))"
    by (simp_all add: getProjectStats_fields)
  from a b c d e f show ?thesis by blast
qed

lemma sampleStats_counts:
  "length sampleStatsRows = 20"
  "length (records sampleStatsRows) = 20"
  "length (filter (\<lambda>p. status p = ''Completed'') (records sampleStatsRows)) = 11"
  by code_simp+

lemma sampleStats_projects: "fst (getAllProjects sampleStatsWorld) = records sampleStatsRows"
  by (simp add: getAllProjects_fst sampleStatsWorld_def sampleWorld_def noFaults_def
      sampleStats_counts)

lemma sampleStats_rate: "nearestDouble (nearestDouble (11 / 20) * 100) = 55 + 1 / 2 ^ 47"
  by code_simp

text \<open>
  C10 as stated fails: with 11 of 20 projects completed the exact rate is 55, and the code
  returns \<open>55.00000000000001\<close>, the double \<open>55 + 2^-47\<close>.
\<close>

theorem getProjectStats_completionRate_counterexample:
  "totalProjects (fst (getProjectStats (\<lambda>s. None) 0 sampleStatsWorld)) = 20 \<and>
   completedProjects (fst (getProjectStats (\<lambda>s. None) 0 sampleStatsWorld)) = 11 \<and>
   completionRate (fst (getProjectStats (\<lambda>s. None) 0 sampleStatsWorld)) = 55 + 1 / 2 ^ 47 \<and>
   completionRate (fst (getProjectStats (\<lambda>s. None) 0 sampleStatsWorld)) \<noteq> 11 / 20 * 100"
proof -
  let ?st = "fst (getProjectStats (\<lambda>s. None) 0 sampleStatsWorld)"
  have t: "totalProjects ?st = 20"
    by (simp only: getProjectStats_fields sampleStats_projects sampleStats_counts)
  have c: "completedProjects ?st = 11"
    by (simp only: getProjectStats_fields sampleStats_projects sampleStats_counts)
  have "completionRate ?st = nearestDouble (nearestDouble (of_nat 11 / of_nat 20) * 100)"
    by (simp only: getProjectStats_fields sampleStats_projects sampleStats_counts) simp
  then have r: "completionRate ?st = 55 + 1 / 2 ^ 47"
    using sampleStats_rate by simp
  then have "completionRate ?st \<noteq> 11 / 20 * 100" by simp
  with t c r show ?thesis by blast
qed

theorem getProjectStats_completionRate_witness:
  "fst (getAllProjects sampleStatsWorld) \<noteq> [] \<and>
   completionRate (fst (getProjectStats (\<lambda>s. None) 0 sampleStatsWorld))
     = nearestDouble (nearestDouble (11 / 20) * 100) \<and>
   \<bar>completionRate (fst (getProjectStats (\<lambda>s. None) 0 sampleStatsWorld)) - 55\<bar> \<le> 55 / 2 ^ 51 \<and>
   completionRate (fst (getProjectStats (\<lambda>s. None) 0
     (sampleWorld [[''ann@hines.com'', ''Ann'', ''Audit'']] (faultAt 1)))) = 0 \<and>
   completionRate (fst (getProjectStats (\<lambda>s. None) 0
     (sampleWorld [[''ann@hines.com'', ''Ann'', ''Audit'']] noFaults))) = 0 \<and>
   completionRate (fst (getProjectStats (\<lambda>s. None) 0
     (sampleWorld [[''ann@hines.com'', ''Ann'', ''Audit'', '''', ''Completed'']] noFaults))) = 100"
proof -
  let ?st = "fst (getProjectStats (\<lambda>s. None) 0 sampleStatsWorld)"
  let ?w0 = "sampleWorld [[''ann@hines.com'', ''Ann'', ''Audit'']] (faultAt 1)"
  let ?w1 = "sampleWorld [[''ann@hines.com'', ''Ann'', ''Audit'']] noFaults"
  let ?w2 = "sampleWorld [[''ann@hines.com'', ''Ann'', ''Audit'', '''', ''Completed'']] noFaults"
  note t = getProjectStats_completionRate [of sampleStatsWorld "\<lambda>s. None" 0]
  note t0 = getProjectStats_completionRate [of ?w0 "\<lambda>s. None" 0]
  note t1 = getProjectStats_completionRate [of ?w1 "\<lambda>s. None" 0]
  note t2 = getProjectStats_completionRate [of ?w2 "\<lambda>s. None" 0]
  have ne: "fst (getAllProjects sampleStatsWorld) \<noteq> []"
    using sampleStats_counts(2) by (simp only: sampleStats_projects) auto
  from t have tc: "totalProjects ?st = 20" "completedProjects ?st = 11"
    by (simp_all only: sampleStats_projects sampleStats_counts)
  from t ne have "completionRate ?st =
        nearestDouble (nearestDouble
          (of_nat (completedProjects ?st) / of_nat (totalProjects ?st)) * 100) \<and>
      \<bar>completionRate ?st - of_nat (completedProjects ?st) / of_nat (totalProjects ?st) * 100\<bar>
        \<le> of_nat (completedProjects ?st) / of_nat (totalProjects ?st) * 100 / 2 ^ 51"
    by blast
  then have "completionRate ?st = nearestDouble (nearestDouble (of_nat 11 / of_nat 20) * 100)"
    and "\<bar>completionRate ?st - of_nat 11 / of_nat 20 * 100\<bar> \<le> of_nat 11 / of_nat 20 * 100 / 2 ^ 51"
    unfolding tc by blast+
  then have r: "completionRate ?st = nearestDouble (nearestDouble (11 / 20) * 100)"
    "\<bar>completionRate ?st - 55\<bar> \<le> 55 / 2 ^ 51"
    by simp_all
  have "fst (getAllProjects ?w0) = []"
    by (simp add: getAllProjects_fst sampleWorld_def faultAt_def)
  with t0 have r0: "completionRate (fst (getProjectStats (\<lambda>s. None) 0 ?w0)) = 0" by blast
  have p1: "fst (getAllProjects ?w1) = [rowToRecord [''ann@hines.com'', ''Ann'', ''Audit'']]"
    by (simp add: getAllProjects_fst sampleWorld_def noFaults_def records_def nonEmptyRow_def
        cell_def falsy_def)
  have "completedProjects (fst (getProjectStats (\<lambda>s. None) 0 ?w1)) = 0"
    using t1 by (simp add: p1 rowToRecord_def cell_def or_default_def)
  with t1 have r1: "completionRate (fst (getProjectStats (\<lambda>s. None) 0 ?w1)) = 0" by blast
  have p2: "fst (getAllProjects ?w2)
      = [rowToRecord [''ann@hines.com'', ''Ann'', ''Audit'', '''', ''Completed'']]"
    by (simp add: getAllProjects_fst sampleWorld_def noFaults_def records_def nonEmptyRow_def
        cell_def falsy_def)
  have "fst (getAllProjects ?w2) \<noteq> [] \<and>
      completedProjects (fst (getProjectStats (\<lambda>s. None) 0 ?w2))
        = totalProjects (fst (getProjectStats (\<lambda>s. None) 0 ?w2))"
    using t2 by (simp add: p2 rowToRecord_def cell_def or_default_def)
  with t2 have r2: "completionRate (fst (getProjectStats (\<lambda>s. None) 0 ?w2)) = 100" by blast
  from ne r r0 r1 r2 show ?thesis by blast
qed

subsection \<open>One row per key\<close>

lemma findIndex_Some: "findIndex P xs = Some i \<Longrightarrow> i < length xs \<and> P (xs ! i)"
proof (induction xs arbitrary: i)
  case Nil
  then show ?case by simp
next
  case (Cons x xs)
  then show ?case by (cases "P x") auto
qed

lemma rowData_key:
  assumes "e \<noteq> []" "t \<noteq> []"
  shows "recordKey (rowToRecord (rowData now e t pd @ rest)) = (e, t)"
    and "nonEmptyRow (rowData now e t pd @ rest)"
  using assms
  by (simp_all add: recordKey_def rowToRecord_def rowData_def cell_def or_default_def
      nonEmptyRow_def falsy_def)

lemma records_all_rows: "\<forall>row\<in>set g. nonEmptyRow row \<Longrightarrow> records g = map rowToRecord g"
  by (simp add: records_def)

lemma onePerKey_update:
  assumes inv: "onePerKey g" and rows: "\<forall>row\<in>set g. nonEmptyRow row" and i: "i < length g"
    and ne: "nonEmptyRow r" and key: "recordKey (rowToRecord r) = recordKey (rowToRecord (g ! i))"
  shows "onePerKey (g[i := r])"
proof -
  have "\<forall>row\<in>set (g[i := r]). nonEmptyRow row"
    using rows ne by (auto dest: set_update_subset_insert[THEN subsetD])
  then have "map recordKey (records (g[i := r])) = (map (recordKey \<circ> rowToRecord) g)[i := recordKey (rowToRecord r)]"
    by (simp add: records_all_rows map_update)
  also have "\<dots> = map (recordKey \<circ> rowToRecord) g"
    using i key by (simp add: list_update_same_conv)
  also have "\<dots> = map recordKey (records g)"
    using rows by (simp add: records_all_rows)
  finally show ?thesis using inv by (simp add: onePerKey_def)
qed

lemma onePerKey_append:
  assumes inv: "onePerKey g" and ne: "nonEmptyRow r"
    and new: "recordKey (rowToRecord r) \<notin> recordKey ` set (records g)"
  shows "onePerKey (g @ [r])"
  using assms by (auto simp: onePerKey_def records_def)

text \<open>
  On a sheet of at most 999 data rows, each with an email, and when the two reads of
  \<open>getAllProjects\<close> succeed, the upsert keeps one row per key: the matched row is the row
  overwritten, and a row is appended only for a new key.
\<close>

lemma addOrUpdateProject_onePerKey:
  assumes inv: "onePerKey (grid w)"
    and rows: "\<forall>row\<in>set (grid w). nonEmptyRow row"
    and len: "length (grid w) \<le> 999"
    and reads: "faults w (Suc (length (requests w))) = None"
      "faults w (Suc (Suc (length (requests w)))) = None"
  shows "onePerKey (grid (snd (addOrUpdateProject now w pd)))"
proof -
  let ?w1 = "w\<lparr>requests := requests w @ [SpreadsheetsGet]\<rparr>"
  let ?w2 = "snd (getAllProjects ?w1)"
  let ?row = "rowData now (the (email_opt pd)) (the (projectTitle_opt pd)) pd"
  let ?P = "\<lambda>project. email project = the (email_opt pd) \<and>
                projectTitle project = the (projectTitle_opt pd)"
  have g2: "grid ?w2 = grid w" by (simp add: getAllProjects_grid)
  show ?thesis
  proof (cases "auth_failure w = None \<and> faults w (length (requests w)) = None \<and>
      sheets w \<noteq> [] \<and> \<not> falsy (email_opt pd) \<and> \<not> falsy (projectTitle_opt pd)")
    case False
    then have "grid (snd (addOrUpdateProject now w pd)) = grid w"
      by (auto simp: addOrUpdateProject_cases split: option.splits list.splits)
    then show ?thesis using inv by simp
  next
    case True
    then obtain sheet rest where sh: "sheets w = sheet # rest" by (cases "sheets w") auto
    from True have e: "the (email_opt pd) \<noteq> []" and t: "the (projectTitle_opt pd) \<noteq> []"
      by (auto simp: falsy_def split: option.splits)
    have all: "fst (getAllProjects ?w1) = map rowToRecord (grid w)"
      using True reads len rows by (simp add: getAllProjects_fst records_all_rows)
    have run: "addOrUpdateProject now w pd =
       (case findIndex ?P (map rowToRecord (grid w)) of
          Some i \<Rightarrow> values_update ?w2 (or_default (title sheet) ''Sheet1'') (i + 2) ?row
        | None \<Rightarrow> values_append ?w2 (or_default (title sheet) ''Sheet1'') ?row)"
      using True sh by (simp add: addOrUpdateProject_cases all)
    show ?thesis
    proof (cases "findIndex ?P (map rowToRecord (grid w))")
      case None
      then have "\<forall>p\<in>set (map rowToRecord (grid w)). \<not> ?P p"
        by (simp only: findIndex_None)
      then have new: "recordKey (rowToRecord ?row) \<notin> recordKey ` set (records (grid w))"
        using rowData_key(1)[OF e t, of now pd "[]"] rows
        by (auto simp: records_all_rows recordKey_def)
      have "onePerKey (grid w @ [?row])"
        using inv rowData_key(2)[OF e t, of now pd "[]"] new
        by (intro onePerKey_append) simp_all
      then show ?thesis
        using inv None by (simp add: run values_append_def remote_def g2 split: option.splits)
    next
      case (Some i)
      from findIndex_Some[OF Some] have i: "i < length (grid w)" by simp
      with findIndex_Some[OF Some] have P: "?P (rowToRecord (grid w ! i))" by simp
      let ?new = "?row @ drop (length ?row) (grid w ! i)"
      have "recordKey (rowToRecord ?new) = recordKey (rowToRecord (grid w ! i))"
        using rowData_key(1)[OF e t] P by (simp add: recordKey_def)
      then have "onePerKey ((grid w)[i := ?new])"
        using inv rows i rowData_key(2)[OF e t] by (intro onePerKey_update) simp_all
      then show ?thesis
        using inv Some i
        by (simp add: run values_update_def remote_def g2 writeRow_def split: option.splits)
    qed
  qed
qed

text \<open>
  C5 fails on the code. Row 2 of the sheet is blank, row 3 holds the record of
  \<open>ann\<close> for \<open>Audit\<close>: one row per key. \<open>getAllProjects\<close> drops row 2 before the index
  is taken, so the record is found at index 0 and row 2 is overwritten, not row 3: the
  sheet then holds two rows for the same key.
\<close>

theorem addOrUpdateProject_blank_row:
  "onePerKey (grid (sampleWorld
      [[], [''ann@hines.com'', ''Ann'', ''Audit'']] noFaults)) \<and>
   fst (addOrUpdateProject sampleDate
      (sampleWorld [[], [''ann@hines.com'', ''Ann'', ''Audit'']] noFaults)
      (sampleBody (Some ''ann@hines.com'') (Some ''Audit''))) = Inr () \<and>
   grid (snd (addOrUpdateProject sampleDate
      (sampleWorld [[], [''ann@hines.com'', ''Ann'', ''Audit'']] noFaults)
      (sampleBody (Some ''ann@hines.com'') (Some ''Audit''))))
    = [[''ann@hines.com'', '''', ''Audit'', '''', ''Not Started'', '''', ''2026-11-02'',
        ''Medium'', '''', '''', '''', ''''],
       [''ann@hines.com'', ''Ann'', ''Audit'']] \<and>
   \<not> onePerKey (grid (snd (addOrUpdateProject sampleDate
      (sampleWorld [[], [''ann@hines.com'', ''Ann'', ''Audit'']] noFaults)
      (sampleBody (Some ''ann@hines.com'') (Some ''Audit'')))))"
  by code_simp

end
